theory Spec2Isabelle
  imports Main "HOL-Library.Sublist"
begin

section \<open>JavaScript values and built-ins used by the component\<close>

text \<open>
  The component under study is the React class \<open>PluginStateDemo\<close>. JavaScript strings
  are modelled as \<open>string\<close>, one \<open>char\<close> per UTF-16 code unit (code units below 256),
  so \<open>length\<close> is the \<open>.length\<close> of the source. The numbers the component handles
  (\<open>counter\<close>, \<open>saveCount\<close>, \<open>restoreCount\<close>) are integer-valued IEEE
  doubles, modelled as the \<open>int\<close> they denote; their addition rounds as the
  doubles' does.
\<close>

text \<open>\<open>String.prototype.includes\<close>: the pattern occurs as a contiguous run (case-sensitive).\<close>

fun str_includes :: "string \<Rightarrow> string \<Rightarrow> bool" where
  "str_includes [] pat = (pat = [])"
| "str_includes (c # cs) pat = (prefix pat (c # cs) \<or> str_includes cs pat)"

text \<open>\<open>Array.prototype.join\<close> on an array of strings.\<close>

fun join :: "string list \<Rightarrow> string \<Rightarrow> string" where
  "join [] sep = []"
| "join [x] sep = x"
| "join (x # y # ys) sep = x @ sep @ join (y # ys) sep"

text \<open>Decimal rendering of a non-negative integer, as a template literal renders a length.\<close>

definition digit_char :: "nat \<Rightarrow> char" where
  "digit_char d = char_of (48 + d)"

function string_of_nat :: "nat \<Rightarrow> string" where
  "string_of_nat n =
     (if n < 10 then [digit_char n] else string_of_nat (n div 10) @ [digit_char (n mod 10)])"
  by pat_completeness auto
termination
  by (relation "measure id") auto

declare string_of_nat.simps [simp del]

text \<open>\<open>Array.prototype.slice\<close> with a negative start \<open>-k\<close>: the last \<open>k\<close> elements
  (the whole array when it is shorter).\<close>

definition slice_last :: "nat \<Rightarrow> 'a list \<Rightarrow> 'a list" where
  "slice_last k xs = drop (length xs - k) xs"

text \<open>
  The \<open>+\<close> of JavaScript on two integer-valued numbers is the exact sum rounded to
  the nearest double, a tie going to the even significand. An integer of magnitude
  up to \<open>2^53\<close> is a double; a larger one has \<open>b > 53\<close> binary digits, and the
  doubles around it are the multiples of \<open>2^(b - 53)\<close>. (The sum of a double and 1
  never leaves the finite range, so no infinity arises.)
\<close>

function bit_length :: "nat \<Rightarrow> nat" where
  "bit_length n = (if n = 0 then 0 else Suc (bit_length (n div 2)))"
  by pat_completeness auto
termination
  by (relation "measure id") auto

declare bit_length.simps [simp del]

definition round_double :: "int \<Rightarrow> int" where
  "round_double n =
     (if \<bar>n\<bar> \<le> 2 ^ 53 then n
      else
        (let a = \<bar>n\<bar>;
             ulp = 2 ^ (bit_length (nat a) - 53);
             q = a div ulp;
             r = a mod ulp;
             m = (if 2 * r < ulp then q
                  else if 2 * r > ulp then q + 1
                  else if even q then q else q + 1)
         in sgn n * (m * ulp)))"

definition js_add :: "int \<Rightarrow> int \<Rightarrow> int" where
  "js_add x y = round_double (x + y)"

text \<open>
  A value that reaches a \<open>catch\<close> clause, as far as \<open>handleError\<close> inspects it:
  an \<open>Error\<close> instance (its \<open>message\<close> and optional \<open>stack\<close>), a primitive string,
  any other non-null object (its optional \<open>message\<close>, the result of \<open>toString()\<close> and of
  \<open>JSON.stringify(error, null, 2)\<close>), or anything else (\<open>null\<close>, \<open>undefined\<close>,
  numbers, booleans).
\<close>

datatype js_value =
    Error_instance string "string option"
  | String_value string
  | Object_value "string option" string string
  | Other_value

section \<open>Data model\<close>

record Preferences =
  autoSave :: bool
  showDebugInfo :: bool

record DemoData =
  userInput :: string
  counter :: int
  preferences :: Preferences
  timestamp :: string

datatype ErrorType = service | validation | network | unknown

record ErrorInfo =
  errorType :: ErrorType
  message :: string
  details :: string
  errorTimestamp :: string
  operation :: string
  stack :: string

record PluginStateDemoState =
  demoData :: DemoData
  isLoading :: bool
  error :: string
  errorInfo :: "ErrorInfo option"
  isInitializing :: bool
  isStateConfigured :: bool
  lastSaveTime :: "string option"
  lastRestoreTime :: "string option"
  saveCount :: int
  restoreCount :: int
  debugLogs :: "string list"
  activeTab :: string
  showErrorDetails :: bool

text \<open>The object handed to \<open>saveState\<close> of the external service.\<close>

record StateToSave =
  sts_demoData :: DemoData
  sts_saveCount :: int
  sts_restoreCount :: int

text \<open>
  What a truthy result of the external \<open>getState\<close> offers to \<open>restoreState\<close>: each of
  the three keys read there, \<open>None\<close> when the key is missing or holds \<open>null\<close>.
\<close>

record RestoredState =
  rs_demoData :: "DemoData option"
  rs_saveCount :: "int option"
  rs_restoreCount :: "int option"

record ValidationResult =
  isValid :: bool
  errors :: "string list"

section \<open>The environment: built-ins of the host and the external service\<close>

text \<open>
  The built-ins whose results the engine or the locale decides are parameters:
  whether \<open>Date.parse\<close> yields \<open>NaN\<close> on a string, \<open>JSON.stringify\<close> of the
  object to save, the two renderings of \<open>new Date()\<close> (the clock is a number of
  milliseconds) and the \<open>stack\<close> the engine attaches to \<open>new Error(message)\<close>.
\<close>

record js_env =
  Date_parse_isNaN :: "string \<Rightarrow> bool"
  JSON_stringify :: "StateToSave \<Rightarrow> string"
  toISOString :: "nat \<Rightarrow> string"
  toLocaleTimeString :: "nat \<Rightarrow> string"
  Error_stack :: "string \<Rightarrow> string option"

definition new_Error :: "js_env \<Rightarrow> string \<Rightarrow> js_value" where
  "new_Error env msg = Error_instance msg (Error_stack env msg)"

text \<open>
  The external PluginState service, as the three asynchronous methods the operations
  await answer when they are called: \<open>saveState\<close> and \<open>clearState\<close> resolve
  (\<open>None\<close>) or reject with a value; \<open>getState\<close> rejects (\<open>Inl\<close>) or resolves,
  to a falsy value (\<open>Inr None\<close>) or to a truthy one.
\<close>

record PluginStateService =
  svc_saveState :: "StateToSave \<Rightarrow> js_value option"
  svc_getState :: "js_value + RestoredState option"
  svc_clearState :: "js_value option"

record Services =
  pluginState :: "PluginStateService option"

record PluginStateDemoProps =
  services :: "Services option"

text \<open>The optional chain \<open>services?.pluginState\<close>.\<close>

definition services_pluginState :: "PluginStateDemoProps \<Rightarrow> PluginStateService option" where
  "services_pluginState p = (case services p of None \<Rightarrow> None | Some s \<Rightarrow> pluginState s)"

text \<open>The calls that reach the external service, in the order they are made.\<close>

datatype service_call =
    SaveStateCall StateToSave
  | GetStateCall
  | ClearStateCall
  | UnsubscribeCall nat

text \<open>
  The component instance and what it acts on: \<open>this.state\<close>, the two private fields
  \<open>autoSaveTimeout\<close> and \<open>pluginStateUnsubscribers\<close> (handles), the host's table of
  pending timeouts (handle and due time), the next free timer handle, the clock, and
  the calls made to the external service so far.
\<close>

record world =
  state :: PluginStateDemoState
  autoSaveTimeout :: "nat option"
  pluginStateUnsubscribers :: "nat list"
  timers :: "(nat \<times> nat) list"
  next_timer :: nat
  now :: nat
  calls :: "service_call list"

section \<open>Logging, error classification, validation\<close>

definition addDebugLog :: "js_env \<Rightarrow> string \<Rightarrow> world \<Rightarrow> world" where
  "addDebugLog env msg w =
     (let ts = toLocaleTimeString env (now w);
          logEntry = ''['' @ ts @ ''] '' @ msg
      in w\<lparr>state := (state w)\<lparr>debugLogs := slice_last 19 (debugLogs (state w)) @ [logEntry]\<rparr>\<rparr>)"

text \<open>The \<open>if\<close>/\<open>else if\<close> chain of \<open>handleError\<close> on the message of an \<open>Error\<close>.\<close>

definition categorize :: "string \<Rightarrow> ErrorType" where
  "categorize msg =
     (if str_includes msg ''Service not available'' \<or> str_includes msg ''not configured''
        then service
      else if str_includes msg ''validation'' \<or> str_includes msg ''invalid''
        then validation
      else if str_includes msg ''network'' \<or> str_includes msg ''fetch''
        then network
      else unknown)"

definition handleError :: "js_env \<Rightarrow> js_value \<Rightarrow> string \<Rightarrow> world \<Rightarrow> ErrorInfo \<times> world" where
  "handleError env err op w =
     (let (ty, msg, det, stk) =
            (case err of
               Error_instance m st \<Rightarrow>
                 (categorize m, m, [], (case st of None \<Rightarrow> [] | Some s \<Rightarrow> s))
             | String_value s \<Rightarrow> (unknown, s, [], [])
             | Object_value m ts js \<Rightarrow>
                 (unknown,
                  (case m of None \<Rightarrow> ts | Some m' \<Rightarrow> if m' = [] then ts else m'),
                  js, [])
             | Other_value \<Rightarrow> (unknown, ''An unexpected error occurred'', [], []));
          info = \<lparr>errorType = ty, message = msg, details = det,
                  errorTimestamp = toISOString env (now w), operation = op, stack = stk\<rparr>;
          w1 = addDebugLog env (''ERROR in '' @ op @ '': '' @ msg) w;
          w2 = w1\<lparr>state := (state w1)\<lparr>error := msg, errorInfo := Some info, isLoading := False\<rparr>\<rparr>
      in (info, w2))"

definition clearError :: "js_env \<Rightarrow> world \<Rightarrow> world" where
  "clearError env w =
     addDebugLog env ''Error cleared by user''
       (w\<lparr>state := (state w)\<lparr>error := [], errorInfo := None, showErrorDetails := False\<rparr>\<rparr>)"

definition validateDemoData :: "js_env \<Rightarrow> DemoData \<Rightarrow> ValidationResult" where
  "validateDemoData env data =
     (let errors0 = [];
          errors1 = (if length (userInput data) > 1000
                     then errors0 @ [''User input exceeds maximum length of 1000 characters'']
                     else errors0);
          errors2 = (if counter data < - 1000 \<or> counter data > 1000
                     then errors1 @ [''Counter value must be between -1000 and 1000'']
                     else errors1);
          errors3 = (if timestamp data = [] \<or> Date_parse_isNaN env (timestamp data)
                     then errors2 @ [''Invalid timestamp format'']
                     else errors2)
      in \<lparr>isValid = (length errors3 = 0), errors = errors3\<rparr>)"

section \<open>The three operations\<close>

text \<open>
  Each operation is an \<open>async\<close> method with one \<open>await\<close>. The code after the
  \<open>await\<close> is a function of its own (\<open>_settled\<close>), applied to the way the promise
  settles and to the component as it is at that moment; the operation itself runs it
  on the answer of the service with nothing happening in between. Every \<open>setState\<close>
  is applied in program order; no operation reads back from \<open>this.state\<close> a field it
  has just set.
\<close>

definition or_default :: "int option \<Rightarrow> int \<Rightarrow> int" where
  \<comment> \<open>\<open>v || d\<close> on a number that may be missing: \<open>0\<close> is falsy\<close>
  "or_default v d = (case v of None \<Rightarrow> d | Some n \<Rightarrow> if n = 0 then d else n)"

definition saveState_settled :: "js_env \<Rightarrow> js_value option \<Rightarrow> world \<Rightarrow> world" where
  "saveState_settled env outcome w =
     (case outcome of
        Some e \<Rightarrow> snd (handleError env e ''saveState'' w)
      | None \<Rightarrow>
          addDebugLog env ''State saved successfully''
            (w\<lparr>state := (state w)\<lparr>isLoading := False,
                                    lastSaveTime := Some (toLocaleTimeString env (now w)),
                                    saveCount := js_add (saveCount (state w)) 1\<rparr>\<rparr>))"

definition saveState :: "js_env \<Rightarrow> PluginStateDemoProps \<Rightarrow> world \<Rightarrow> world" where
  "saveState env p w0 =
     (let w1 = (if error (state w0) \<noteq> [] \<or> errorInfo (state w0) \<noteq> None
                then clearError env w0 else w0);
          w2 = w1\<lparr>state := (state w1)\<lparr>isLoading := True\<rparr>\<rparr>;
          w3 = addDebugLog env ''Starting state save operation...'' w2
      in case services_pluginState p of
           None \<Rightarrow>
             snd (handleError env
                    (new_Error env ''PluginState service not available for save operation'')
                    ''saveState'' w3)
         | Some svc \<Rightarrow>
             (let v = validateDemoData env (demoData (state w3))
              in if \<not> isValid v
                 then snd (handleError env
                             (new_Error env (''Validation failed: '' @ join (errors v) '', ''))
                             ''saveState'' w3)
                 else
                   (let stateToSave = \<lparr>sts_demoData = demoData (state w3),
                                         sts_saveCount = js_add (saveCount (state w3)) 1,
                                         sts_restoreCount = restoreCount (state w3)\<rparr>;
                        stateSize = length (JSON_stringify env stateToSave)
                    in if stateSize > 10240
                       then snd (handleError env
                                   (new_Error env
                                      (''State size ('' @ string_of_nat stateSize
                                         @ '' bytes) exceeds maximum allowed size (10240 bytes)''))
                                   ''saveState'' w3)
                       else
                         (let w4 = addDebugLog env
                                     (''Saving state ('' @ string_of_nat stateSize @ '' bytes)...'') w3;
                              w5 = w4\<lparr>calls := calls w4 @ [SaveStateCall stateToSave]\<rparr>
                          in saveState_settled env (svc_saveState svc stateToSave) w5))))"

definition restoreState_settled ::
  "js_env \<Rightarrow> js_value + RestoredState option \<Rightarrow> world \<Rightarrow> world" where
  "restoreState_settled env outcome w =
     (case outcome of
        Inl e \<Rightarrow> snd (handleError env e ''restoreState'' w)
      | Inr (Some restoredState) \<Rightarrow>
          addDebugLog env ''State restored successfully''
            (w\<lparr>state := (state w)\<lparr>
                 demoData := (case rs_demoData restoredState of
                                Some d \<Rightarrow> d | None \<Rightarrow> demoData (state w)),
                 saveCount := or_default (rs_saveCount restoredState) 0,
                 restoreCount := js_add (or_default (rs_restoreCount restoredState) 0) 1,
                 lastRestoreTime := Some (toLocaleTimeString env (now w)),
                 isLoading := False\<rparr>\<rparr>)
      | Inr None \<Rightarrow>
          addDebugLog env ''No saved state found''
            (w\<lparr>state := (state w)\<lparr>isLoading := False\<rparr>\<rparr>))"

definition restoreState :: "js_env \<Rightarrow> PluginStateDemoProps \<Rightarrow> world \<Rightarrow> world" where
  "restoreState env p w0 =
     (let w1 = (if error (state w0) \<noteq> [] \<or> errorInfo (state w0) \<noteq> None
                then clearError env w0 else w0);
          w2 = w1\<lparr>state := (state w1)\<lparr>isLoading := True\<rparr>\<rparr>;
          w3 = addDebugLog env ''Starting state restore operation...'' w2
      in case services_pluginState p of
           None \<Rightarrow>
             snd (handleError env
                    (new_Error env ''PluginState service not available for restore operation'')
                    ''restoreState'' w3)
         | Some svc \<Rightarrow>
             restoreState_settled env (svc_getState svc)
               (w3\<lparr>calls := calls w3 @ [GetStateCall]\<rparr>))"

definition default_demoData :: "js_env \<Rightarrow> nat \<Rightarrow> DemoData" where
  \<comment> \<open>the object literal of the constructor and of \<open>clearState\<close>, built at time \<open>t\<close>\<close>
  "default_demoData env t =
     \<lparr>userInput = [], counter = 0,
      preferences = \<lparr>autoSave = True, showDebugInfo = True\<rparr>,
      timestamp = toISOString env t\<rparr>"

definition clearState_settled :: "js_env \<Rightarrow> js_value option \<Rightarrow> world \<Rightarrow> world" where
  "clearState_settled env outcome w =
     (case outcome of
        Some e \<Rightarrow> snd (handleError env e ''clearState'' w)
      | None \<Rightarrow>
          addDebugLog env ''State cleared successfully''
            (w\<lparr>state := (state w)\<lparr>
                 demoData := default_demoData env (now w),
                 saveCount := 0,
                 restoreCount := 0,
                 lastSaveTime := None,
                 lastRestoreTime := None,
                 isLoading := False\<rparr>\<rparr>))"

definition clearState :: "js_env \<Rightarrow> PluginStateDemoProps \<Rightarrow> world \<Rightarrow> world" where
  "clearState env p w0 =
     (let w1 = clearError env w0;
          w2 = w1\<lparr>state := (state w1)\<lparr>isLoading := True\<rparr>\<rparr>;
          w3 = addDebugLog env ''Starting state clear operation...'' w2
      in case services_pluginState p of
           None \<Rightarrow>
             snd (handleError env
                    (new_Error env ''PluginState service not available for clear operation'')
                    ''clearState'' w3)
         | Some svc \<Rightarrow>
             clearState_settled env (svc_clearState svc)
               (w3\<lparr>calls := calls w3 @ [ClearStateCall]\<rparr>))"

section \<open>Local mutations and the debounced auto-save\<close>

text \<open>
  The only timer the component creates is the one of \<open>debouncedAutoSave\<close>, so every
  entry of the host's table stands for its callback. \<open>setTimeout\<close> hands out a fresh
  handle and enters the due time; \<open>clearTimeout\<close> removes the handle (and does nothing
  for a handle that is no longer pending).
\<close>

definition setTimeout :: "nat \<Rightarrow> world \<Rightarrow> nat \<times> world" where
  "setTimeout delay w =
     (next_timer w,
      w\<lparr>timers := timers w @ [(next_timer w, now w + delay)],
        next_timer := next_timer w + 1\<rparr>)"

definition clearTimeout :: "nat \<Rightarrow> world \<Rightarrow> world" where
  "clearTimeout h w = w\<lparr>timers := filter (\<lambda>e. fst e \<noteq> h) (timers w)\<rparr>"

definition debouncedAutoSave :: "world \<Rightarrow> world" where
  "debouncedAutoSave w =
     (let w1 = (case autoSaveTimeout w of Some h \<Rightarrow> clearTimeout h w | None \<Rightarrow> w);
          (h', w2) = setTimeout 1000 w1
      in w2\<lparr>autoSaveTimeout := Some h'\<rparr>)"

text \<open>The function \<open>setTimeout\<close> is given: it runs when the timer fires.\<close>

definition autoSave_callback :: "js_env \<Rightarrow> PluginStateDemoProps \<Rightarrow> world \<Rightarrow> world" where
  "autoSave_callback env p w =
     saveState env p (addDebugLog env ''Auto-saving after user input...'' w)"

text \<open>\<open>Partial<DemoData>\<close>: the keys an update carries (its \<open>timestamp\<close>, if any, is
  overwritten by the spread that follows).\<close>

record DemoDataUpdates =
  upd_userInput :: "string option"
  upd_counter :: "int option"
  upd_preferences :: "Preferences option"

definition merge_updates :: "js_env \<Rightarrow> nat \<Rightarrow> DemoDataUpdates \<Rightarrow> DemoData \<Rightarrow> DemoData" where
  "merge_updates env t updates d =
     \<lparr>userInput = (case upd_userInput updates of Some v \<Rightarrow> v | None \<Rightarrow> userInput d),
      counter = (case upd_counter updates of Some v \<Rightarrow> v | None \<Rightarrow> counter d),
      preferences = (case upd_preferences updates of Some v \<Rightarrow> v | None \<Rightarrow> preferences d),
      timestamp = toISOString env t\<rparr>"

definition updateDemoData :: "js_env \<Rightarrow> DemoDataUpdates \<Rightarrow> world \<Rightarrow> world" where
  "updateDemoData env updates w =
     (let w1 = w\<lparr>state := (state w)\<lparr>demoData :=
                   merge_updates env (now w) updates (demoData (state w))\<rparr>\<rparr>
      in if autoSave (preferences (demoData (state w1))) then debouncedAutoSave w1 else w1)"

definition cleanupServices :: "js_env \<Rightarrow> world \<Rightarrow> world" where
  "cleanupServices env w =
     addDebugLog env ''Services cleaned up''
       (w\<lparr>calls := calls w @ map UnsubscribeCall (pluginStateUnsubscribers w),
          pluginStateUnsubscribers := []\<rparr>)"

definition componentWillUnmount :: "js_env \<Rightarrow> world \<Rightarrow> world" where
  "componentWillUnmount env w =
     cleanupServices env
       (case autoSaveTimeout w of
          Some h \<Rightarrow> (clearTimeout h w)\<lparr>autoSaveTimeout := None\<rparr>
        | None \<Rightarrow> w)"

text \<open>
  The host's event loop, as far as timers go: a pending timer that is due leaves the
  table and its callback runs, the clock standing at the due time; letting time pass
  up to \<open>t\<close> fires the timers due by then, earliest first. No callback of this
  component creates a timer, so the timers due are those pending at the start.
\<close>

definition fire_timer :: "js_env \<Rightarrow> PluginStateDemoProps \<Rightarrow> nat \<times> nat \<Rightarrow> world \<Rightarrow> world" where
  "fire_timer env p e w =
     (if e \<in> set (timers w)
      then autoSave_callback env p
             (w\<lparr>timers := removeAll e (timers w), now := max (now w) (snd e)\<rparr>)
      else w)"

definition advance_to :: "js_env \<Rightarrow> PluginStateDemoProps \<Rightarrow> nat \<Rightarrow> world \<Rightarrow> world" where
  "advance_to env p t w =
     (let due = sort_key snd (filter (\<lambda>e. snd e \<le> t) (timers w));
          w' = fold (fire_timer env p) due w
      in w'\<lparr>now := max (now w') t\<rparr>)"

text \<open>The component as its constructor leaves it, at time \<open>t\<close>.\<close>

definition initial_state :: "js_env \<Rightarrow> nat \<Rightarrow> PluginStateDemoState" where
  "initial_state env t =
     \<lparr>demoData = default_demoData env t,
      isLoading = False, error = [], errorInfo = None, isInitializing = True,
      isStateConfigured = False, lastSaveTime = None, lastRestoreTime = None,
      saveCount = 0, restoreCount = 0, debugLogs = [],
      activeTab = ''overview'', showErrorDetails = False\<rparr>"

definition initial_world :: "js_env \<Rightarrow> nat \<Rightarrow> world" where
  "initial_world env t =
     \<lparr>state = initial_state env t, autoSaveTimeout = None, pluginStateUnsubscribers = [],
      timers = [], next_timer = 1, now = t, calls = []\<rparr>"

section \<open>One instance of the environment\<close>

text \<open>
  \<open>JSON.stringify\<close> on the object to save, for integer counters: keys in insertion
  order, no white space, strings quoted with the escapes of ECMAScript's
  \<open>QuoteJSONString\<close>.
\<close>

definition hex_digit :: "nat \<Rightarrow> char" where
  "hex_digit d = (if d < 10 then char_of (48 + d) else char_of (87 + d))"

definition json_escape :: "char \<Rightarrow> string" where
  "json_escape c =
     (let n = (of_char c :: nat) in
      if n = 34 then [CHR 0x5C, CHR 0x22]
      else if n = 92 then [CHR 0x5C, CHR 0x5C]
      else if n = 8 then [CHR 0x5C, CHR ''b'']
      else if n = 12 then [CHR 0x5C, CHR ''f'']
      else if n = 10 then [CHR 0x5C, CHR ''n'']
      else if n = 13 then [CHR 0x5C, CHR ''r'']
      else if n = 9 then [CHR 0x5C, CHR ''t'']
      else if n < 32 then [CHR 0x5C, CHR ''u'', CHR ''0'', CHR ''0'', hex_digit (n div 16), hex_digit (n mod 16)]
      else [c])"

definition json_string :: "string \<Rightarrow> string" where
  "json_string s = [CHR 0x22] @ concat (map json_escape s) @ [CHR 0x22]"

definition json_int :: "int \<Rightarrow> string" where
  "json_int i = (if i < 0 then ''-'' @ string_of_nat (nat (- i)) else string_of_nat (nat i))"

definition json_bool :: "bool \<Rightarrow> string" where
  "json_bool b = (if b then ''true'' else ''false'')"

definition json_DemoData :: "DemoData \<Rightarrow> string" where
  "json_DemoData d =
     ''{'' @ json_string ''userInput'' @ '':'' @ json_string (userInput d)
     @ '','' @ json_string ''counter'' @ '':'' @ json_int (counter d)
     @ '','' @ json_string ''preferences'' @ '':''
     @ ''{'' @ json_string ''autoSave'' @ '':'' @ json_bool (autoSave (preferences d))
     @ '','' @ json_string ''showDebugInfo'' @ '':'' @ json_bool (showDebugInfo (preferences d))
     @ ''}''
     @ '','' @ json_string ''timestamp'' @ '':'' @ json_string (timestamp d)
     @ ''}''"

definition json_StateToSave :: "StateToSave \<Rightarrow> string" where
  "json_StateToSave s =
     ''{'' @ json_string ''demoData'' @ '':'' @ json_DemoData (sts_demoData s)
     @ '','' @ json_string ''saveCount'' @ '':'' @ json_int (sts_saveCount s)
     @ '','' @ json_string ''restoreCount'' @ '':'' @ json_int (sts_restoreCount s)
     @ ''}''"

text \<open>
  The instance used in the closed examples: the clock is rendered as its decimal
  number of milliseconds (inside a parenthesised remark for \<open>toISOString\<close>),
  \<open>Date.parse\<close> accepts the date \<open>Jan 1 2024\<close>, alone or followed by a
  parenthesised remark, and errors carry no stack.
\<close>

definition example_Date_parse_isNaN :: "string \<Rightarrow> bool" where
  "example_Date_parse_isNaN s =
     (\<not> (s = ''Jan 1 2024''
         \<or> (prefix ''Jan 1 2024 ('' s \<and> last s = CHR '')'')))"

definition example_env :: js_env where
  "example_env =
     \<lparr>Date_parse_isNaN = example_Date_parse_isNaN,
      JSON_stringify = json_StateToSave,
      toISOString = (\<lambda>t. ''Jan 1 2024 (+'' @ string_of_nat t @ ''ms)''),
      toLocaleTimeString = string_of_nat,
      Error_stack = (\<lambda>m. None)\<rparr>"

text \<open>
  The development-mode service of \<open>index.tsx\<close>, given what its local storage holds:
  \<open>saveState\<close> and \<open>clearState\<close> resolve, \<open>getState\<close> resolves to the stored
  object or to \<open>null\<close>.
\<close>

definition mockServices :: "RestoredState option \<Rightarrow> Services" where
  "mockServices saved =
     \<lparr>pluginState = Some \<lparr>svc_saveState = (\<lambda>s. None), svc_getState = Inr saved,
                           svc_clearState = None\<rparr>\<rparr>"

text \<open>A freshly constructed component whose data has been replaced by \<open>d\<close>.\<close>

definition example_world :: "DemoData \<Rightarrow> world" where
  "example_world d =
     (initial_world example_env 0)\<lparr>state := (initial_state example_env 0)\<lparr>demoData := d\<rparr>\<rparr>"

section \<open>Evaluating the decimal rendering\<close>

lemma digit_char_values:
  "digit_char 0 = CHR ''0''" "digit_char (Suc 0) = CHR ''1''" "digit_char 1 = CHR ''1''"
  "digit_char 2 = CHR ''2''" "digit_char 3 = CHR ''3''" "digit_char 4 = CHR ''4''"
  "digit_char 5 = CHR ''5''" "digit_char 6 = CHR ''6''" "digit_char 7 = CHR ''7''"
  "digit_char 8 = CHR ''8''" "digit_char 9 = CHR ''9''"
  by code_simp+

lemmas string_of_nat_eval = string_of_nat.simps digit_char_values

section \<open>Double addition on safe integers\<close>

lemma js_add_exact: "\<bar>x + y\<bar> \<le> 2 ^ 53 \<Longrightarrow> js_add x y = x + y"
  by (simp add: js_add_def round_double_def)

lemma js_add_one_safe: "\<bar>n\<bar> < 2 ^ 53 \<Longrightarrow> js_add n 1 = n + 1"
  by (rule js_add_exact) simp

lemma js_add_0_1: "js_add 0 1 = 1"
  by (simp add: js_add_exact)

section \<open>The bounded operation log\<close>


lemma slice_last_length: "length (slice_last k xs) \<le> k"
  by (simp add: slice_last_def)

lemma slice_last_short: "length xs \<le> k \<Longrightarrow> slice_last k xs = xs"
  by (simp add: slice_last_def)

lemma slice_last_full: "length xs = Suc k \<Longrightarrow> slice_last k xs = tl xs"
  by (cases xs) (simp_all add: slice_last_def)

lemma addDebugLog_state:
  "state (addDebugLog env msg w) =
     (state w)\<lparr>debugLogs := slice_last 19 (debugLogs (state w))
                  @ [''['' @ toLocaleTimeString env (now w) @ ''] '' @ msg]\<rparr>"
  by (simp add: addDebugLog_def Let_def)

lemma addDebugLog_frame:
  "calls (addDebugLog env msg w) = calls w"
  "timers (addDebugLog env msg w) = timers w"
  "now (addDebugLog env msg w) = now w"
  "next_timer (addDebugLog env msg w) = next_timer w"
  "autoSaveTimeout (addDebugLog env msg w) = autoSaveTimeout w"
  "pluginStateUnsubscribers (addDebugLog env msg w) = pluginStateUnsubscribers w"
  by (simp_all add: addDebugLog_def Let_def)

lemma addDebugLog_bound: "length (debugLogs (state (addDebugLog env msg w))) \<le> 20"
  using slice_last_length [of 19 "debugLogs (state w)"] by (simp add: addDebugLog_state)

lemma handleError_state:
  "state (snd (handleError env err op w)) =
     (state (addDebugLog env (''ERROR in '' @ op @ '': '' @ message (fst (handleError env err op w))) w))
       \<lparr>error := message (fst (handleError env err op w)),
        errorInfo := Some (fst (handleError env err op w)),
        isLoading := False\<rparr>"
  by (cases err) (simp_all add: handleError_def Let_def)

lemma handleError_frame:
  "calls (snd (handleError env err op w)) = calls w"
  "timers (snd (handleError env err op w)) = timers w"
  "now (snd (handleError env err op w)) = now w"
  "next_timer (snd (handleError env err op w)) = next_timer w"
  "autoSaveTimeout (snd (handleError env err op w)) = autoSaveTimeout w"
  "pluginStateUnsubscribers (snd (handleError env err op w)) = pluginStateUnsubscribers w"
  by (cases err; simp add: handleError_def Let_def addDebugLog_frame)+

lemma handleError_bound: "length (debugLogs (state (snd (handleError env err op w)))) \<le> 20"
  using addDebugLog_bound by (simp add: handleError_state)

lemma clearError_bound: "length (debugLogs (state (clearError env w))) \<le> 20"
  by (simp add: clearError_def addDebugLog_bound)

lemma saveState_settled_bound: "length (debugLogs (state (saveState_settled env out w))) \<le> 20"
  by (cases out) (simp_all add: saveState_settled_def addDebugLog_bound handleError_bound)

lemma saveState_bound: "length (debugLogs (state (saveState env p w))) \<le> 20"
  by (simp add: saveState_def Let_def handleError_bound saveState_settled_bound split: option.split)

lemma restoreState_settled_bound: "length (debugLogs (state (restoreState_settled env out w))) \<le> 20"
  by (simp add: restoreState_settled_def addDebugLog_bound handleError_bound split: sum.split option.split)

lemma restoreState_bound: "length (debugLogs (state (restoreState env p w))) \<le> 20"
  by (simp add: restoreState_def Let_def handleError_bound restoreState_settled_bound split: option.split)

lemma clearState_settled_bound: "length (debugLogs (state (clearState_settled env out w))) \<le> 20"
  by (cases out) (simp_all add: clearState_settled_def addDebugLog_bound handleError_bound)

lemma clearState_bound: "length (debugLogs (state (clearState env p w))) \<le> 20"
  by (simp add: clearState_def Let_def handleError_bound clearState_settled_bound split: option.split)

lemma autoSave_callback_bound: "length (debugLogs (state (autoSave_callback env p w))) \<le> 20"
  by (simp add: autoSave_callback_def saveState_bound)

lemma cleanupServices_bound: "length (debugLogs (state (cleanupServices env w))) \<le> 20"
  by (simp add: cleanupServices_def addDebugLog_bound)

lemma componentWillUnmount_bound: "length (debugLogs (state (componentWillUnmount env w))) \<le> 20"
  by (simp add: componentWillUnmount_def cleanupServices_bound)

lemma debouncedAutoSave_state: "state (debouncedAutoSave w) = state w"
  by (simp add: debouncedAutoSave_def setTimeout_def clearTimeout_def Let_def split: option.split)

lemma updateDemoData_logs: "debugLogs (state (updateDemoData env u w)) = debugLogs (state w)"
  by (simp add: updateDemoData_def Let_def debouncedAutoSave_state)

lemma fire_timer_bound:
  "length (debugLogs (state w)) \<le> 20 \<Longrightarrow> length (debugLogs (state (fire_timer env p e w))) \<le> 20"
  by (simp add: fire_timer_def autoSave_callback_bound)

lemma fold_fire_timer_bound:
  "length (debugLogs (state w)) \<le> 20 \<Longrightarrow>
   length (debugLogs (state (fold (fire_timer env p) es w))) \<le> 20"
  by (induction es arbitrary: w) (simp_all add: fire_timer_bound)

lemma advance_to_bound:
  "length (debugLogs (state w)) \<le> 20 \<Longrightarrow> length (debugLogs (state (advance_to env p t w))) \<le> 20"
  by (simp add: advance_to_def Let_def fold_fire_timer_bound)

text \<open>
  C7. The operation log never holds more than 20 entries after an append; appending to
  a log of 20 drops the oldest entry and keeps the other 19 in order (below 20 nothing
  is dropped); and every operation of the component keeps a log of at most 20 entries
  within that bound.
\<close>

theorem debugLogs_bounded_fifo:
  "length (debugLogs (state (addDebugLog env msg w))) \<le> 20
   \<and> (length (debugLogs (state w)) = 20 \<longrightarrow>
        debugLogs (state (addDebugLog env msg w))
          = tl (debugLogs (state w)) @ [''['' @ toLocaleTimeString env (now w) @ ''] '' @ msg])
   \<and> (length (debugLogs (state w)) < 20 \<longrightarrow>
        debugLogs (state (addDebugLog env msg w))
          = debugLogs (state w) @ [''['' @ toLocaleTimeString env (now w) @ ''] '' @ msg])
   \<and> (length (debugLogs (state w)) \<le> 20 \<longrightarrow>
        length (debugLogs (state (snd (handleError env err op w)))) \<le> 20
        \<and> length (debugLogs (state (clearError env w))) \<le> 20
        \<and> length (debugLogs (state (saveState env p w))) \<le> 20
        \<and> length (debugLogs (state (restoreState env p w))) \<le> 20
        \<and> length (debugLogs (state (clearState env p w))) \<le> 20
        \<and> length (debugLogs (state (saveState_settled env out w))) \<le> 20
        \<and> length (debugLogs (state (restoreState_settled env rout w))) \<le> 20
        \<and> length (debugLogs (state (clearState_settled env out w))) \<le> 20
        \<and> length (debugLogs (state (updateDemoData env u w))) \<le> 20
        \<and> length (debugLogs (state (advance_to env p t w))) \<le> 20
        \<and> length (debugLogs (state (componentWillUnmount env w))) \<le> 20)"
proof -
  have full: "length (debugLogs (state w)) = 20 \<Longrightarrow> slice_last 19 (debugLogs (state w)) = tl (debugLogs (state w))"
    by (rule slice_last_full) simp
  have short: "length (debugLogs (state w)) < 20 \<Longrightarrow> slice_last 19 (debugLogs (state w)) = debugLogs (state w)"
    by (rule slice_last_short) simp
  show ?thesis
    by (simp add: addDebugLog_bound addDebugLog_state slice_last_length full short handleError_bound clearError_bound
        saveState_bound restoreState_bound clearState_bound saveState_settled_bound
        restoreState_settled_bound clearState_settled_bound updateDemoData_logs advance_to_bound
        componentWillUnmount_bound)
qed


theorem debugLogs_bounded_fifo_witness:
  "debugLogs (state (addDebugLog example_env ''new''
      ((initial_world example_env 7)\<lparr>state := (initial_state example_env 7)
          \<lparr>debugLogs := ''oldest'' # replicate 19 ''later''\<rparr>\<rparr>)))
     = replicate 19 ''later'' @ [''[7] new'']
   \<and> length (debugLogs (state (saveState example_env \<lparr>services = None\<rparr>
      ((initial_world example_env 7)\<lparr>state := (initial_state example_env 7)
          \<lparr>debugLogs := ''oldest'' # replicate 19 ''later''\<rparr>\<rparr>)))) \<le> 20"
proof -
  have seven: "string_of_nat 7 = ''7''" by (simp add: string_of_nat_eval)
  show ?thesis
    using debugLogs_bounded_fifo [of example_env "''new''"
        "(initial_world example_env 7)\<lparr>state := (initial_state example_env 7)
          \<lparr>debugLogs := ''oldest'' # replicate 19 ''later''\<rparr>\<rparr>" Other_value "[]"
        "\<lparr>services = None\<rparr>" None "Inr None" "\<lparr>upd_userInput = None, upd_counter = None, upd_preferences = None\<rparr>" 0]
    by (simp add: initial_world_def example_env_def seven)
qed


section \<open>The local validator\<close>

text \<open>
  C3. The validator is a function of the data (and of \<open>Date.parse\<close>) alone. Its three
  rules are checked one after the other, none depending on another: the list of
  violations holds the length message exactly when the text is longer than 1000, the
  range message exactly when the counter is outside [-1000, 1000] and the timestamp
  message exactly when the timestamp is empty or does not parse, in this order; each
  violated rule makes the result invalid; and the result is valid exactly when the
  list is empty.
\<close>

theorem validateDemoData_rules:
  "errors (validateDemoData env d) =
     (if length (userInput d) > 1000
      then [''User input exceeds maximum length of 1000 characters''] else [])
     @ (if counter d < - 1000 \<or> counter d > 1000
        then [''Counter value must be between -1000 and 1000''] else [])
     @ (if timestamp d = [] \<or> Date_parse_isNaN env (timestamp d)
        then [''Invalid timestamp format''] else [])
   \<and> (length (userInput d) > 1000 \<longrightarrow>
        \<not> isValid (validateDemoData env d)
        \<and> ''User input exceeds maximum length of 1000 characters''
            \<in> set (errors (validateDemoData env d)))
   \<and> (counter d < - 1000 \<or> counter d > 1000 \<longrightarrow>
        \<not> isValid (validateDemoData env d)
        \<and> ''Counter value must be between -1000 and 1000''
            \<in> set (errors (validateDemoData env d)))
   \<and> (timestamp d = [] \<or> Date_parse_isNaN env (timestamp d) \<longrightarrow>
        \<not> isValid (validateDemoData env d)
        \<and> ''Invalid timestamp format'' \<in> set (errors (validateDemoData env d)))
   \<and> (isValid (validateDemoData env d) \<longleftrightarrow> errors (validateDemoData env d) = [])"
  by (simp add: validateDemoData_def Let_def)

theorem validateDemoData_rules_witness:
  "errors (validateDemoData example_env
      \<lparr>userInput = replicate 1001 CHR ''a'', counter = 1001,
       preferences = \<lparr>autoSave = True, showDebugInfo = True\<rparr>, timestamp = ''yesterday''\<rparr>)
     = [''User input exceeds maximum length of 1000 characters'',
        ''Counter value must be between -1000 and 1000'',
        ''Invalid timestamp format'']
   \<and> \<not> isValid (validateDemoData example_env
      \<lparr>userInput = replicate 1001 CHR ''a'', counter = 1001,
       preferences = \<lparr>autoSave = True, showDebugInfo = True\<rparr>, timestamp = ''yesterday''\<rparr>)"
  using validateDemoData_rules [of example_env
      "\<lparr>userInput = replicate 1001 CHR ''a'', counter = 1001,
       preferences = \<lparr>autoSave = True, showDebugInfo = True\<rparr>, timestamp = ''yesterday''\<rparr>"]
  by (simp add: example_env_def example_Date_parse_isNaN_def)

section \<open>The error classifier\<close>

lemma handleError_Error_instance:
  "fst (handleError env (Error_instance m st) op w) =
     \<lparr>errorType = categorize m, message = m, details = [],
      errorTimestamp = toISOString env (now w), operation = op,
      stack = (case st of None \<Rightarrow> [] | Some s \<Rightarrow> s)\<rparr>"
  by (simp add: handleError_def Let_def)

lemma handleError_operation: "operation (fst (handleError env err op w)) = op"
  by (cases err) (simp_all add: handleError_def Let_def)

lemma handleError_isLoading: "\<not> isLoading (state (snd (handleError env err op w)))"
  by (simp add: handleError_state)

lemma handleError_shown:
  "errorInfo (state (snd (handleError env err op w))) = Some (fst (handleError env err op w))"
  "error (state (snd (handleError env err op w))) = message (fst (handleError env err op w))"
  by (simp_all add: handleError_state)

text \<open>
  C9, as the code has it. For a failure that is an \<open>Error\<close> instance the category is
  the first match on its message: service when it contains \<open>Service not available\<close>
  or \<open>not configured\<close>; else validation when it contains \<open>validation\<close> or
  \<open>invalid\<close>; else network when it contains \<open>network\<close> or \<open>fetch\<close>; else
  unknown. For every failure value, the record carries the name of the operation and
  the busy flag is cleared.
\<close>

theorem handleError_classification:
  "errorType (fst (handleError env (Error_instance m st) op w)) =
     (if str_includes m ''Service not available'' \<or> str_includes m ''not configured''
        then service
      else if str_includes m ''validation'' \<or> str_includes m ''invalid''
        then validation
      else if str_includes m ''network'' \<or> str_includes m ''fetch''
        then network
      else unknown)
   \<and> operation (fst (handleError env err op w)) = op
   \<and> \<not> isLoading (state (snd (handleError env err op w)))
   \<and> errorInfo (state (snd (handleError env err op w))) = Some (fst (handleError env err op w))"
  by (simp add: handleError_Error_instance handleError_operation handleError_isLoading
      handleError_shown categorize_def)

theorem handleError_classification_witness:
  "errorType (fst (handleError example_env
      (Error_instance ''invalid state: service not configured'' None) ''saveState''
      ((initial_world example_env 0)\<lparr>state := (initial_state example_env 0)\<lparr>isLoading := True\<rparr>\<rparr>)))
     = service
   \<and> operation (fst (handleError example_env (String_value ''boom'') ''saveState''
      ((initial_world example_env 0)\<lparr>state := (initial_state example_env 0)\<lparr>isLoading := True\<rparr>\<rparr>)))
     = ''saveState''
   \<and> \<not> isLoading (state (snd (handleError example_env (String_value ''boom'') ''saveState''
      ((initial_world example_env 0)\<lparr>state := (initial_state example_env 0)\<lparr>isLoading := True\<rparr>\<rparr>))))"
  using handleError_classification [of example_env "''invalid state: service not configured''" None
      "''saveState''"
      "(initial_world example_env 0)\<lparr>state := (initial_state example_env 0)\<lparr>isLoading := True\<rparr>\<rparr>"
      "String_value ''boom''"]
  by simp

text \<open>
  The claim as stated fails on a failure that is not an \<open>Error\<close> instance: the string
  \<open>network request failed\<close> contains \<open>network\<close> and is classified unknown.
\<close>

theorem handleError_classification_counterexample:
  "str_includes ''network request failed'' ''network''
   \<and> errorType (fst (handleError example_env (String_value ''network request failed'')
        ''saveState'' (initial_world example_env 0))) = unknown"
  by (simp add: handleError_def Let_def)

text \<open>
  C10. A failure that is not an \<open>Error\<close> instance (a string, another object, or any
  other value) is classified unknown whatever its message says; a string becomes the
  message and leaves the details empty; an object's details are its serialisation.
\<close>

theorem handleError_non_Error_unknown:
  "errorType (fst (handleError env (String_value s) op w)) = unknown
   \<and> message (fst (handleError env (String_value s) op w)) = s
   \<and> details (fst (handleError env (String_value s) op w)) = []
   \<and> errorType (fst (handleError env (Object_value om ots ojs) op w)) = unknown
   \<and> details (fst (handleError env (Object_value om ots ojs) op w)) = ojs
   \<and> errorType (fst (handleError env Other_value op w)) = unknown"
  by (simp add: handleError_def Let_def)

theorem handleError_non_Error_unknown_witness:
  "errorType (fst (handleError example_env (String_value ''Service not available: fetch invalid'')
      ''restoreState'' (initial_world example_env 0))) = unknown
   \<and> details (fst (handleError example_env (String_value ''Service not available: fetch invalid'')
      ''restoreState'' (initial_world example_env 0))) = []
   \<and> errorType (fst (handleError example_env
      (Object_value (Some ''network validation'') ''[object Object]'' ''{}'')
      ''restoreState'' (initial_world example_env 0))) = unknown"
  using handleError_non_Error_unknown [of example_env "''Service not available: fetch invalid''"
      "''restoreState''" "initial_world example_env 0" "Some ''network validation''"
      "''[object Object]''" "''{}''"]
  by simp


section \<open>Save\<close>

lemma clearError_state:
  "state (clearError env w) =
     (state w)\<lparr>error := [], errorInfo := None, showErrorDetails := False,
               debugLogs := slice_last 19 (debugLogs (state w))
                  @ [''['' @ toLocaleTimeString env (now w) @ ''] Error cleared by user'']\<rparr>"
  by (simp add: clearError_def addDebugLog_def Let_def)

lemma clearError_frame:
  "calls (clearError env w) = calls w"
  "timers (clearError env w) = timers w"
  "now (clearError env w) = now w"
  "next_timer (clearError env w) = next_timer w"
  "autoSaveTimeout (clearError env w) = autoSaveTimeout w"
  "pluginStateUnsubscribers (clearError env w) = pluginStateUnsubscribers w"
  by (simp_all add: clearError_def addDebugLog_def Let_def)

lemma str_includes_sublist: "str_includes s pat = sublist pat s"
  by (induction s) (auto simp: sublist_Cons_right)

lemma str_includes_middle: "str_includes (a @ b @ c) b"
  by (simp add: str_includes_sublist)

text \<open>
  C1 on the code: with no service in the props, Save makes no external call, and the
  error it records has category unknown, not service: the message thrown,
  \<open>PluginState service not available for save operation\<close>, has a lower-case
  \<open>service\<close> and so contains neither \<open>Service not available\<close> nor
  \<open>not configured\<close>.
\<close>

theorem saveState_service_absent_category:
  assumes "services_pluginState p = None"
  shows "calls (saveState env p w) = calls w
    \<and> errorInfo (state (saveState env p w)) =
           Some \<lparr>errorType = unknown,
                 message = ''PluginState service not available for save operation'',
                 details = [], errorTimestamp = toISOString env (now w),
                 operation = ''saveState'',
                 stack = (case Error_stack env ''PluginState service not available for save operation''
                          of None \<Rightarrow> [] | Some s \<Rightarrow> s)\<rparr>"
  using assms
  by (simp add: saveState_def Let_def new_Error_def handleError_frame handleError_shown
      handleError_Error_instance addDebugLog_frame clearError_frame categorize_def)

theorem saveState_service_absent_category_witness:
  "calls (saveState example_env \<lparr>services = None\<rparr> (initial_world example_env 0)) = []
   \<and> map_option errorType
        (errorInfo (state (saveState example_env \<lparr>services = None\<rparr> (initial_world example_env 0))))
       = Some unknown
   \<and> map_option message
        (errorInfo (state (saveState example_env \<lparr>services = None\<rparr> (initial_world example_env 0))))
       = Some ''PluginState service not available for save operation''
   \<and> map_option errorType
        (errorInfo (state (saveState example_env \<lparr>services = Some \<lparr>pluginState = None\<rparr>\<rparr>
           (initial_world example_env 0))))
       = Some unknown"
proof -
  have absent: "services_pluginState \<lparr>services = None\<rparr> = None"
    "services_pluginState \<lparr>services = Some \<lparr>pluginState = None\<rparr>\<rparr> = None"
    by (simp_all add: services_pluginState_def)
  show ?thesis
    using saveState_service_absent_category [OF absent(1), of example_env "initial_world example_env 0"]
      saveState_service_absent_category [OF absent(2), of example_env "initial_world example_env 0"]
    by (simp add: initial_world_def)
qed

text \<open>
  C2, as the code has it. When the object composed from the state, with
  \<open>saveCount + 1\<close>, serialises to more than 10240 characters, Save makes no
  external call, leaves the save counter and the last-save time as they were, shows an
  error and clears the busy flag; and when the service is present and the data passes
  the validator, the error message is the size message, which contains the size.
\<close>

theorem saveState_size_exceeded:
  assumes "length (JSON_stringify env
              \<lparr>sts_demoData = demoData (state w), sts_saveCount = js_add (saveCount (state w)) 1,
               sts_restoreCount = restoreCount (state w)\<rparr>) > 10240"
  shows "calls (saveState env p w) = calls w
    \<and> saveCount (state (saveState env p w)) = saveCount (state w)
    \<and> lastSaveTime (state (saveState env p w)) = lastSaveTime (state w)
    \<and> errorInfo (state (saveState env p w)) \<noteq> None
    \<and> \<not> isLoading (state (saveState env p w))
    \<and> (services_pluginState p \<noteq> None \<and> isValid (validateDemoData env (demoData (state w))) \<longrightarrow>
         error (state (saveState env p w)) =
           ''State size (''
           @ string_of_nat (length (JSON_stringify env
               \<lparr>sts_demoData = demoData (state w), sts_saveCount = js_add (saveCount (state w)) 1,
                sts_restoreCount = restoreCount (state w)\<rparr>))
           @ '' bytes) exceeds maximum allowed size (10240 bytes)''
         \<and> str_includes (error (state (saveState env p w)))
             (string_of_nat (length (JSON_stringify env
               \<lparr>sts_demoData = demoData (state w), sts_saveCount = js_add (saveCount (state w)) 1,
                sts_restoreCount = restoreCount (state w)\<rparr>))))"
proof -
  define w3 where "w3 = addDebugLog env ''Starting state save operation...''
     ((if error (state w) \<noteq> [] \<or> errorInfo (state w) \<noteq> None then clearError env w else w)
        \<lparr>state := (state (if error (state w) \<noteq> [] \<or> errorInfo (state w) \<noteq> None
                           then clearError env w else w))\<lparr>isLoading := True\<rparr>\<rparr>)"
  have w3: "demoData (state w3) = demoData (state w)" "saveCount (state w3) = saveCount (state w)"
    "restoreCount (state w3) = restoreCount (state w)" "lastSaveTime (state w3) = lastSaveTime (state w)"
    "calls w3 = calls w"
    by (simp_all add: w3_def addDebugLog_state addDebugLog_frame clearError_state clearError_frame)
  have unfold: "saveState env p w =
     (case services_pluginState p of
        None \<Rightarrow> snd (handleError env
                    (new_Error env ''PluginState service not available for save operation'')
                    ''saveState'' w3)
      | Some svc \<Rightarrow>
          if \<not> isValid (validateDemoData env (demoData (state w)))
          then snd (handleError env
                      (new_Error env (''Validation failed: ''
                         @ join (errors (validateDemoData env (demoData (state w)))) '', ''))
                      ''saveState'' w3)
          else snd (handleError env
                      (new_Error env
                         (''State size ('' @ string_of_nat (length (JSON_stringify env
                            \<lparr>sts_demoData = demoData (state w), sts_saveCount = js_add (saveCount (state w)) 1,
                             sts_restoreCount = restoreCount (state w)\<rparr>))
                          @ '' bytes) exceeds maximum allowed size (10240 bytes)''))
                      ''saveState'' w3))"
    using assms unfolding saveState_def Let_def w3_def [symmetric] w3
    by (simp split: option.split)
  have frame: "calls (snd (handleError env e ''saveState'' w3)) = calls w"
    "saveCount (state (snd (handleError env e ''saveState'' w3))) = saveCount (state w)"
    "lastSaveTime (state (snd (handleError env e ''saveState'' w3))) = lastSaveTime (state w)"
    "\<exists>y. errorInfo (state (snd (handleError env e ''saveState'' w3))) = Some y"
    "\<not> isLoading (state (snd (handleError env e ''saveState'' w3)))" for e
    by (simp_all add: handleError_frame handleError_state addDebugLog_state w3)
  have msg: "error (state (snd (handleError env (new_Error env m) ''saveState'' w3))) = m" for m
    by (simp add: handleError_shown new_Error_def handleError_Error_instance)
  define sizeMsg where "sizeMsg = ''State size (''
           @ string_of_nat (length (JSON_stringify env
               \<lparr>sts_demoData = demoData (state w), sts_saveCount = js_add (saveCount (state w)) 1,
                sts_restoreCount = restoreCount (state w)\<rparr>))
           @ '' bytes) exceeds maximum allowed size (10240 bytes)''"
  have inc: "str_includes sizeMsg (string_of_nat (length (JSON_stringify env
               \<lparr>sts_demoData = demoData (state w), sts_saveCount = js_add (saveCount (state w)) 1,
                sts_restoreCount = restoreCount (state w)\<rparr>)))"
    unfolding sizeMsg_def by (rule str_includes_middle)
  show ?thesis
    unfolding unfold sizeMsg_def [symmetric]
    by (simp add: frame msg inc split: option.split)
qed

theorem saveState_size_exceeded_witness:
  "calls (saveState example_env \<lparr>services = Some (mockServices None)\<rparr>
      (example_world \<lparr>userInput = [], counter = 0,
         preferences = \<lparr>autoSave = True, showDebugInfo = True\<rparr>,
         timestamp = ''Jan 1 2024 ('' @ replicate 10240 CHR ''x'' @ '')''\<rparr>)) = []
   \<and> error (state (saveState example_env \<lparr>services = Some (mockServices None)\<rparr>
      (example_world \<lparr>userInput = [], counter = 0,
         preferences = \<lparr>autoSave = True, showDebugInfo = True\<rparr>,
         timestamp = ''Jan 1 2024 ('' @ replicate 10240 CHR ''x'' @ '')''\<rparr>)))
     = ''State size (10393 bytes) exceeds maximum allowed size (10240 bytes)''
   \<and> saveCount (state (saveState example_env \<lparr>services = Some (mockServices None)\<rparr>
      (example_world \<lparr>userInput = [], counter = 0,
         preferences = \<lparr>autoSave = True, showDebugInfo = True\<rparr>,
         timestamp = ''Jan 1 2024 ('' @ replicate 10240 CHR ''x'' @ '')''\<rparr>))) = 0
   \<and> lastSaveTime (state (saveState example_env \<lparr>services = Some (mockServices None)\<rparr>
      (example_world \<lparr>userInput = [], counter = 0,
         preferences = \<lparr>autoSave = True, showDebugInfo = True\<rparr>,
         timestamp = ''Jan 1 2024 ('' @ replicate 10240 CHR ''x'' @ '')''\<rparr>))) = None"
proof -
  define d where "d = \<lparr>userInput = [], counter = 0,
         preferences = \<lparr>autoSave = True, showDebugInfo = True\<rparr>,
         timestamp = ''Jan 1 2024 ('' @ replicate 10240 CHR ''x'' @ '')''\<rparr>"
  have x: "json_escape CHR ''x'' = ''x''"
    by (simp add: json_escape_def)
  have one: "string_of_nat (Suc 0) = ''1''" and zero: "string_of_nat 0 = ''0''"
    by (simp_all add: string_of_nat_eval)
  have size: "length (json_StateToSave
      \<lparr>sts_demoData = d, sts_saveCount = 1, sts_restoreCount = 0\<rparr>) = 10393"
    by (simp add: d_def json_StateToSave_def json_DemoData_def json_string_def json_int_def
        json_bool_def x one zero length_concat sum_list_replicate)
       (simp add: json_escape_def)
  have valid: "isValid (validateDemoData example_env d)"
    by (simp add: d_def validateDemoData_def Let_def example_env_def example_Date_parse_isNaN_def
       )
  have num: "string_of_nat 10393 = ''10393''"
    by (simp add: string_of_nat_eval)
  have st: "demoData (state (example_world d)) = d" "saveCount (state (example_world d)) = 0"
    "restoreCount (state (example_world d)) = 0" "lastSaveTime (state (example_world d)) = None"
    "calls (example_world d) = []"
    by (simp_all add: example_world_def initial_world_def initial_state_def)
  have env: "JSON_stringify example_env = json_StateToSave"
    by (simp add: example_env_def)
  have p: "services_pluginState \<lparr>services = Some (mockServices None)\<rparr> \<noteq> None"
    by (simp add: services_pluginState_def mockServices_def)
  show ?thesis
    using saveState_size_exceeded [of example_env "example_world d"
        "\<lparr>services = Some (mockServices None)\<rparr>"] valid p
    unfolding d_def [symmetric]
    by (simp add: st env size num js_add_0_1)
qed

text \<open>
  The claim as stated fails where an earlier check stops the Save: with a text of
  10241 characters the object serialises to 10391 characters, and the message is the
  validator's, which does not contain that number.
\<close>

theorem saveState_size_exceeded_counterexample:
  "length (JSON_stringify example_env
      \<lparr>sts_demoData = \<lparr>userInput = replicate 10241 CHR ''a'', counter = 0,
          preferences = \<lparr>autoSave = True, showDebugInfo = True\<rparr>, timestamp = ''Jan 1 2024''\<rparr>,
       sts_saveCount = js_add 0 1, sts_restoreCount = 0\<rparr>) = 10391
   \<and> error (state (saveState example_env \<lparr>services = Some (mockServices None)\<rparr>
        (example_world \<lparr>userInput = replicate 10241 CHR ''a'', counter = 0,
          preferences = \<lparr>autoSave = True, showDebugInfo = True\<rparr>, timestamp = ''Jan 1 2024''\<rparr>)))
     = ''Validation failed: User input exceeds maximum length of 1000 characters''
   \<and> \<not> str_includes
         ''Validation failed: User input exceeds maximum length of 1000 characters''
         (string_of_nat 10391)"
proof -
  define d where "d = \<lparr>userInput = replicate 10241 CHR ''a'', counter = 0,
          preferences = \<lparr>autoSave = True, showDebugInfo = True\<rparr>, timestamp = ''Jan 1 2024''\<rparr>"
  have a: "json_escape CHR ''a'' = ''a''"
    by (simp add: json_escape_def)
  have one: "string_of_nat (Suc 0) = ''1''" and zero: "string_of_nat 0 = ''0''"
    by (simp_all add: string_of_nat_eval)
  have size: "length (json_StateToSave
      \<lparr>sts_demoData = d, sts_saveCount = 1, sts_restoreCount = 0\<rparr>) = 10391"
    by (simp add: d_def json_StateToSave_def json_DemoData_def json_string_def json_int_def
        json_bool_def a one zero length_concat sum_list_replicate)
       (simp add: json_escape_def)
  have v: "validateDemoData example_env d =
      \<lparr>isValid = False, errors = [''User input exceeds maximum length of 1000 characters'']\<rparr>"
    by (simp add: d_def validateDemoData_def Let_def example_env_def example_Date_parse_isNaN_def
       )
  have num: "string_of_nat 10391 = ''10391''"
    by (simp add: string_of_nat_eval)
  have st: "demoData (state (example_world d)) = d" "error (state (example_world d)) = []"
    "errorInfo (state (example_world d)) = None"
    by (simp_all add: example_world_def initial_world_def initial_state_def)
  have msg: "error (state (saveState example_env \<lparr>services = Some (mockServices None)\<rparr>
        (example_world d)))
     = ''Validation failed: User input exceeds maximum length of 1000 characters''"
    by (simp add: saveState_def Let_def st services_pluginState_def mockServices_def
        addDebugLog_state v handleError_shown new_Error_def handleError_Error_instance)
  have "\<not> str_includes
         ''Validation failed: User input exceeds maximum length of 1000 characters'' ''10391''"
    by simp
  then show ?thesis
    using size msg unfolding d_def [symmetric]
    by (simp add: num example_env_def js_add_0_1)
qed


section \<open>Restore\<close>

lemma or_default_0: "or_default v 0 = (case v of None \<Rightarrow> 0 | Some n \<Rightarrow> n)"
  by (simp add: or_default_def split: option.split)

lemma restoreState_present:
  assumes "services_pluginState p = Some svc"
  obtains w3 where "restoreState env p w = restoreState_settled env (svc_getState svc) w3"
    and "demoData (state w3) = demoData (state w)"
    and "saveCount (state w3) = saveCount (state w)"
    and "restoreCount (state w3) = restoreCount (state w)"
    and "lastSaveTime (state w3) = lastSaveTime (state w)"
    and "lastRestoreTime (state w3) = lastRestoreTime (state w)"
    and "error (state w3) = []"
    and "errorInfo (state w3) = None"
    and "calls w3 = calls w @ [GetStateCall]"
    and "now w3 = now w"
proof -
  define w1 where "w1 = (if error (state w) \<noteq> [] \<or> errorInfo (state w) \<noteq> None
                         then clearError env w else w)"
  define w3 where "w3 = addDebugLog env ''Starting state restore operation...''
                          (w1\<lparr>state := (state w1)\<lparr>isLoading := True\<rparr>\<rparr>)"
  have w1: "demoData (state w1) = demoData (state w)" "saveCount (state w1) = saveCount (state w)"
    "restoreCount (state w1) = restoreCount (state w)"
    "lastSaveTime (state w1) = lastSaveTime (state w)"
    "lastRestoreTime (state w1) = lastRestoreTime (state w)"
    "error (state w1) = []" "errorInfo (state w1) = None" "calls w1 = calls w" "now w1 = now w"
    by (auto simp: w1_def clearError_state clearError_frame)
  have run: "restoreState env p w =
      restoreState_settled env (svc_getState svc) (w3\<lparr>calls := calls w3 @ [GetStateCall]\<rparr>)"
    using assms unfolding restoreState_def Let_def w1_def [symmetric] w3_def [symmetric]
    by simp
  show thesis
    by (rule that [OF run]) (simp_all add: w3_def addDebugLog_state addDebugLog_frame w1)
qed

text \<open>
  C4, as the code has it. When the external \<open>getState\<close> resolves to a record,
  Restore takes the record's data (the data in memory when the record has none), sets
  the save counter to the record's (0 when it has none), sets the restore counter to
  the double sum of the record's (0 when it has none) and one, which is that counter
  plus one whenever its magnitude is below \<open>2^53\<close>, and sets the last-restore time to
  the current time; the code after the \<open>await\<close> does so on whatever the component
  holds when the promise settles.
\<close>

theorem restoreState_adopts_record:
  assumes "services_pluginState p = Some svc" and "svc_getState svc = Inr (Some r)"
  shows "demoData (state (restoreState env p w)) =
           (case rs_demoData r of Some d \<Rightarrow> d | None \<Rightarrow> demoData (state w))
    \<and> saveCount (state (restoreState env p w)) =
           (case rs_saveCount r of Some n \<Rightarrow> n | None \<Rightarrow> 0)
    \<and> restoreCount (state (restoreState env p w)) =
           js_add (case rs_restoreCount r of Some n \<Rightarrow> n | None \<Rightarrow> 0) 1
    \<and> (\<bar>case rs_restoreCount r of Some n \<Rightarrow> n | None \<Rightarrow> 0\<bar> < 2 ^ 53 \<longrightarrow>
         restoreCount (state (restoreState env p w)) =
           (case rs_restoreCount r of Some n \<Rightarrow> n | None \<Rightarrow> 0) + 1)
    \<and> lastRestoreTime (state (restoreState env p w)) = Some (toLocaleTimeString env (now w))
    \<and> calls (restoreState env p w) = calls w @ [GetStateCall]
    \<and> demoData (state (restoreState_settled env (Inr (Some r)) w')) =
           (case rs_demoData r of Some d \<Rightarrow> d | None \<Rightarrow> demoData (state w'))
    \<and> saveCount (state (restoreState_settled env (Inr (Some r)) w')) =
           (case rs_saveCount r of Some n \<Rightarrow> n | None \<Rightarrow> 0)
    \<and> restoreCount (state (restoreState_settled env (Inr (Some r)) w')) =
           js_add (case rs_restoreCount r of Some n \<Rightarrow> n | None \<Rightarrow> 0) 1
    \<and> (\<bar>case rs_restoreCount r of Some n \<Rightarrow> n | None \<Rightarrow> 0\<bar> < 2 ^ 53 \<longrightarrow>
         restoreCount (state (restoreState_settled env (Inr (Some r)) w')) =
           (case rs_restoreCount r of Some n \<Rightarrow> n | None \<Rightarrow> 0) + 1)
    \<and> lastRestoreTime (state (restoreState_settled env (Inr (Some r)) w')) =
           Some (toLocaleTimeString env (now w'))"
proof -
  from assms(1) obtain w3 where "restoreState env p w = restoreState_settled env (svc_getState svc) w3"
    and "demoData (state w3) = demoData (state w)"
    and "saveCount (state w3) = saveCount (state w)"
    and "restoreCount (state w3) = restoreCount (state w)"
    and "lastSaveTime (state w3) = lastSaveTime (state w)"
    and "lastRestoreTime (state w3) = lastRestoreTime (state w)"
    and "error (state w3) = []"
    and "errorInfo (state w3) = None"
    and "calls w3 = calls w @ [GetStateCall]"
    and "now w3 = now w"
    by (rule restoreState_present)
  then show ?thesis
    using assms(2)
    by (simp add: restoreState_settled_def addDebugLog_state addDebugLog_frame or_default_0
        js_add_one_safe split: option.split)
qed

theorem restoreState_adopts_record_witness:
  "restoreCount (state (restoreState example_env
      \<lparr>services = Some (mockServices (Some \<lparr>rs_demoData = None, rs_saveCount = Some 5,
                                            rs_restoreCount = Some 3\<rparr>))\<rparr>
      (initial_world example_env 42))) = 4
   \<and> saveCount (state (restoreState example_env
      \<lparr>services = Some (mockServices (Some \<lparr>rs_demoData = None, rs_saveCount = Some 5,
                                            rs_restoreCount = Some 3\<rparr>))\<rparr>
      (initial_world example_env 42))) = 5
   \<and> demoData (state (restoreState example_env
      \<lparr>services = Some (mockServices (Some \<lparr>rs_demoData = None, rs_saveCount = Some 5,
                                            rs_restoreCount = Some 3\<rparr>))\<rparr>
      (initial_world example_env 42))) = default_demoData example_env 42
   \<and> lastRestoreTime (state (restoreState example_env
      \<lparr>services = Some (mockServices (Some \<lparr>rs_demoData = None, rs_saveCount = Some 5,
                                            rs_restoreCount = Some 3\<rparr>))\<rparr>
      (initial_world example_env 42))) = Some ''42''"
proof -
  have num: "string_of_nat 42 = ''42''"
    by (simp add: string_of_nat_eval)
  have safe: "\<bar>3 :: int\<bar> < 2 ^ 53"
    by simp
  show ?thesis
    using restoreState_adopts_record [of
        "\<lparr>services = Some (mockServices (Some \<lparr>rs_demoData = None, rs_saveCount = Some 5,
                                            rs_restoreCount = Some 3\<rparr>))\<rparr>"
        "\<lparr>svc_saveState = (\<lambda>s. None),
          svc_getState = Inr (Some \<lparr>rs_demoData = None, rs_saveCount = Some 5,
                                      rs_restoreCount = Some 3\<rparr>),
          svc_clearState = None\<rparr>"
        "\<lparr>rs_demoData = None, rs_saveCount = Some 5, rs_restoreCount = Some 3\<rparr>"
        example_env "initial_world example_env 42" "initial_world example_env 42"] safe
    by (simp add: services_pluginState_def mockServices_def initial_world_def initial_state_def
        example_env_def num)
qed

text \<open>
  The claim as stated fails on a stored counter beyond the safe integers: for a stored
  restore counter of \<open>2^53 = 9007199254740992\<close> the double sum with one is
  \<open>2^53\<close> again, so the local restore counter is the stored one, not one more.
\<close>

theorem restoreState_adopts_record_counterexample:
  "restoreCount (state (restoreState example_env
      \<lparr>services = Some (mockServices (Some \<lparr>rs_demoData = None, rs_saveCount = Some 5,
                                            rs_restoreCount = Some 9007199254740992\<rparr>))\<rparr>
      (initial_world example_env 42))) = 9007199254740992
   \<and> restoreCount (state (restoreState example_env
      \<lparr>services = Some (mockServices (Some \<lparr>rs_demoData = None, rs_saveCount = Some 5,
                                            rs_restoreCount = Some 9007199254740992\<rparr>))\<rparr>
      (initial_world example_env 42))) \<noteq> 9007199254740992 + 1"
proof -
  have len: "bit_length 9007199254740993 = 54"
    by (simp add: bit_length.simps)
  have sum: "js_add 9007199254740992 1 = 9007199254740992"
    by (simp add: js_add_def round_double_def Let_def len)
  have run: "restoreCount (state (restoreState example_env
      \<lparr>services = Some (mockServices (Some \<lparr>rs_demoData = None, rs_saveCount = Some 5,
                                            rs_restoreCount = Some 9007199254740992\<rparr>))\<rparr>
      (initial_world example_env 42))) = js_add 9007199254740992 1"
    by (simp add: restoreState_def Let_def restoreState_settled_def addDebugLog_state
        services_pluginState_def mockServices_def initial_world_def initial_state_def
        or_default_def)
  show ?thesis
    by (simp add: run sum)
qed

text \<open>
  C5. When the external \<open>getState\<close> resolves to an absent (falsy) value, Restore
  leaves the data, both counters and both display times as they were, ends with no
  error shown and the busy flag cleared, and its last log entry is
  \<open>No saved state found\<close>; the code after the \<open>await\<close> changes none of
  these fields, nor the error shown, of whatever the component holds when the promise
  settles.
\<close>

theorem restoreState_nothing_saved:
  assumes "services_pluginState p = Some svc" and "svc_getState svc = Inr None"
  shows "demoData (state (restoreState env p w)) = demoData (state w)
    \<and> saveCount (state (restoreState env p w)) = saveCount (state w)
    \<and> restoreCount (state (restoreState env p w)) = restoreCount (state w)
    \<and> lastSaveTime (state (restoreState env p w)) = lastSaveTime (state w)
    \<and> lastRestoreTime (state (restoreState env p w)) = lastRestoreTime (state w)
    \<and> error (state (restoreState env p w)) = []
    \<and> errorInfo (state (restoreState env p w)) = None
    \<and> \<not> isLoading (state (restoreState env p w))
    \<and> last (debugLogs (state (restoreState env p w))) =
          ''['' @ toLocaleTimeString env (now w) @ ''] No saved state found''
    \<and> demoData (state (restoreState_settled env (Inr None) w')) = demoData (state w')
    \<and> saveCount (state (restoreState_settled env (Inr None) w')) = saveCount (state w')
    \<and> restoreCount (state (restoreState_settled env (Inr None) w')) = restoreCount (state w')
    \<and> lastSaveTime (state (restoreState_settled env (Inr None) w')) = lastSaveTime (state w')
    \<and> lastRestoreTime (state (restoreState_settled env (Inr None) w'))
        = lastRestoreTime (state w')
    \<and> error (state (restoreState_settled env (Inr None) w')) = error (state w')
    \<and> errorInfo (state (restoreState_settled env (Inr None) w')) = errorInfo (state w')
    \<and> last (debugLogs (state (restoreState_settled env (Inr None) w'))) =
          ''['' @ toLocaleTimeString env (now w') @ ''] No saved state found''"
proof -
  from assms(1) obtain w3 where "restoreState env p w = restoreState_settled env (svc_getState svc) w3"
    and "demoData (state w3) = demoData (state w)"
    and "saveCount (state w3) = saveCount (state w)"
    and "restoreCount (state w3) = restoreCount (state w)"
    and "lastSaveTime (state w3) = lastSaveTime (state w)"
    and "lastRestoreTime (state w3) = lastRestoreTime (state w)"
    and "error (state w3) = []"
    and "errorInfo (state w3) = None"
    and "calls w3 = calls w @ [GetStateCall]"
    and "now w3 = now w"
    by (rule restoreState_present)
  then show ?thesis
    using assms(2)
    by (simp add: restoreState_settled_def addDebugLog_state)
qed

theorem restoreState_nothing_saved_witness:
  "demoData (state (restoreState example_env \<lparr>services = Some (mockServices None)\<rparr>
      ((initial_world example_env 9)\<lparr>state := (initial_state example_env 9)
         \<lparr>saveCount := 2, restoreCount := 1, error := ''old error''\<rparr>\<rparr>)))
     = default_demoData example_env 9
   \<and> saveCount (state (restoreState example_env \<lparr>services = Some (mockServices None)\<rparr>
      ((initial_world example_env 9)\<lparr>state := (initial_state example_env 9)
         \<lparr>saveCount := 2, restoreCount := 1, error := ''old error''\<rparr>\<rparr>))) = 2
   \<and> restoreCount (state (restoreState example_env \<lparr>services = Some (mockServices None)\<rparr>
      ((initial_world example_env 9)\<lparr>state := (initial_state example_env 9)
         \<lparr>saveCount := 2, restoreCount := 1, error := ''old error''\<rparr>\<rparr>))) = 1
   \<and> error (state (restoreState example_env \<lparr>services = Some (mockServices None)\<rparr>
      ((initial_world example_env 9)\<lparr>state := (initial_state example_env 9)
         \<lparr>saveCount := 2, restoreCount := 1, error := ''old error''\<rparr>\<rparr>))) = []
   \<and> last (debugLogs (state (restoreState example_env \<lparr>services = Some (mockServices None)\<rparr>
      ((initial_world example_env 9)\<lparr>state := (initial_state example_env 9)
         \<lparr>saveCount := 2, restoreCount := 1, error := ''old error''\<rparr>\<rparr>))))
     = ''[9] No saved state found''"
proof -
  have num: "string_of_nat 9 = ''9''"
    by (simp add: string_of_nat_eval)
  show ?thesis
    using restoreState_nothing_saved [of "\<lparr>services = Some (mockServices None)\<rparr>"
        "\<lparr>svc_saveState = (\<lambda>s. None), svc_getState = Inr None, svc_clearState = None\<rparr>"
        example_env
        "(initial_world example_env 9)\<lparr>state := (initial_state example_env 9)
         \<lparr>saveCount := 2, restoreCount := 1, error := ''old error''\<rparr>\<rparr>"
        "initial_world example_env 9"]
    by (simp add: services_pluginState_def mockServices_def initial_world_def initial_state_def
        example_env_def num)
qed

section \<open>Clear\<close>

text \<open>
  C6. When the external \<open>clearState\<close> resolves, Clear resets the data to the default
  (empty text, counter 0, both preferences true, timestamp of the moment), both
  counters to 0 and both display times to null, whatever the component held before;
  the code after the \<open>await\<close> does so on whatever the component holds when the
  promise settles.
\<close>

theorem clearState_resets:
  assumes "services_pluginState p = Some svc" and "svc_clearState svc = None"
  shows "demoData (state (clearState env p w)) =
           \<lparr>userInput = [], counter = 0,
            preferences = \<lparr>autoSave = True, showDebugInfo = True\<rparr>,
            timestamp = toISOString env (now w)\<rparr>
    \<and> saveCount (state (clearState env p w)) = 0
    \<and> restoreCount (state (clearState env p w)) = 0
    \<and> lastSaveTime (state (clearState env p w)) = None
    \<and> lastRestoreTime (state (clearState env p w)) = None
    \<and> calls (clearState env p w) = calls w @ [ClearStateCall]
    \<and> demoData (state (clearState_settled env None w')) =
           \<lparr>userInput = [], counter = 0,
            preferences = \<lparr>autoSave = True, showDebugInfo = True\<rparr>,
            timestamp = toISOString env (now w')\<rparr>
    \<and> saveCount (state (clearState_settled env None w')) = 0
    \<and> restoreCount (state (clearState_settled env None w')) = 0
    \<and> lastSaveTime (state (clearState_settled env None w')) = None
    \<and> lastRestoreTime (state (clearState_settled env None w')) = None"
  using assms
  by (simp add: clearState_def Let_def clearState_settled_def addDebugLog_state
      addDebugLog_frame clearError_frame default_demoData_def)

theorem clearState_resets_witness:
  "demoData (state (clearState example_env \<lparr>services = Some (mockServices None)\<rparr>
      ((example_world \<lparr>userInput = ''hello'', counter = 17,
          preferences = \<lparr>autoSave = False, showDebugInfo = False\<rparr>, timestamp = ''Jan 1 2024''\<rparr>)
        \<lparr>now := 5\<rparr>)))
     = \<lparr>userInput = [], counter = 0,
        preferences = \<lparr>autoSave = True, showDebugInfo = True\<rparr>,
        timestamp = ''Jan 1 2024 (+5ms)''\<rparr>
   \<and> saveCount (state (clearState example_env \<lparr>services = Some (mockServices None)\<rparr>
      ((example_world \<lparr>userInput = ''hello'', counter = 17,
          preferences = \<lparr>autoSave = False, showDebugInfo = False\<rparr>, timestamp = ''Jan 1 2024''\<rparr>)
        \<lparr>now := 5\<rparr>))) = 0
   \<and> lastSaveTime (state (clearState example_env \<lparr>services = Some (mockServices None)\<rparr>
      ((example_world \<lparr>userInput = ''hello'', counter = 17,
          preferences = \<lparr>autoSave = False, showDebugInfo = False\<rparr>, timestamp = ''Jan 1 2024''\<rparr>)
        \<lparr>now := 5\<rparr>))) = None"
proof -
  have num: "string_of_nat 5 = ''5''"
    by (simp add: string_of_nat_eval)
  show ?thesis
    using clearState_resets [of "\<lparr>services = Some (mockServices None)\<rparr>"
        "\<lparr>svc_saveState = (\<lambda>s. None), svc_getState = Inr None, svc_clearState = None\<rparr>"
        example_env
        "(example_world \<lparr>userInput = ''hello'', counter = 17,
          preferences = \<lparr>autoSave = False, showDebugInfo = False\<rparr>, timestamp = ''Jan 1 2024''\<rparr>)
        \<lparr>now := 5\<rparr>"]
    by (simp add: services_pluginState_def mockServices_def example_world_def example_env_def num)
qed


section \<open>The debounced auto-save\<close>

lemma saveState_settled_frame:
  "timers (saveState_settled env out w) = timers w"
  "now (saveState_settled env out w) = now w"
  "autoSaveTimeout (saveState_settled env out w) = autoSaveTimeout w"
  "next_timer (saveState_settled env out w) = next_timer w"
  by (cases out; simp add: saveState_settled_def handleError_frame addDebugLog_frame)+

lemma saveState_frame:
  "timers (saveState env p w) = timers w"
  "now (saveState env p w) = now w"
  "autoSaveTimeout (saveState env p w) = autoSaveTimeout w"
  "next_timer (saveState env p w) = next_timer w"
  by (simp_all add: saveState_def Let_def handleError_frame addDebugLog_frame clearError_frame
      saveState_settled_frame split: option.split)

lemma autoSave_callback_frame:
  "timers (autoSave_callback env p w) = timers w"
  "now (autoSave_callback env p w) = now w"
  "autoSaveTimeout (autoSave_callback env p w) = autoSaveTimeout w"
  "next_timer (autoSave_callback env p w) = next_timer w"
  by (simp_all add: autoSave_callback_def saveState_frame addDebugLog_frame)

lemma debouncedAutoSave_armed:
  assumes "fst ` set (timers w) \<subseteq> set_option (autoSaveTimeout w)"
  shows "debouncedAutoSave w =
           w\<lparr>autoSaveTimeout := Some (next_timer w),
             timers := [(next_timer w, now w + 1000)],
             next_timer := next_timer w + 1\<rparr>"
proof (cases "autoSaveTimeout w")
  case None
  with assms have "timers w = []" by simp
  with None show ?thesis
    by (simp add: debouncedAutoSave_def setTimeout_def Let_def)
next
  case (Some h)
  with assms have "\<forall>e \<in> set (timers w). fst e = h" by auto
  then have "filter (\<lambda>e. fst e \<noteq> h) (timers w) = []"
    by (simp add: filter_empty_conv)
  with Some show ?thesis
    by (simp add: debouncedAutoSave_def setTimeout_def clearTimeout_def Let_def)
qed

lemma advance_to_nothing_due:
  assumes "\<forall>e \<in> set (timers w). t < snd e"
  shows "advance_to env p t w = w\<lparr>now := max (now w) t\<rparr>"
proof -
  from assms have "filter (\<lambda>e. snd e \<le> t) (timers w) = []"
    by (auto simp: filter_empty_conv)
  then show ?thesis
    by (simp add: advance_to_def Let_def)
qed

lemma advance_to_single_due:
  assumes "timers w = [(h, due)]" and "due \<le> t" and "now w \<le> due"
  shows "advance_to env p t w = (autoSave_callback env p (w\<lparr>timers := [], now := due\<rparr>))\<lparr>now := t\<rparr>"
  using assms
  by (simp add: advance_to_def Let_def fire_timer_def autoSave_callback_frame max_def)

lemma componentWillUnmount_timer:
  assumes "fst ` set (timers w) \<subseteq> set_option (autoSaveTimeout w)"
  shows "timers (componentWillUnmount env w) = []"
    and "autoSaveTimeout (componentWillUnmount env w) = None"
proof -
  show "autoSaveTimeout (componentWillUnmount env w) = None"
    by (simp add: componentWillUnmount_def cleanupServices_def addDebugLog_frame clearTimeout_def
        split: option.split)
  show "timers (componentWillUnmount env w) = []"
  proof (cases "autoSaveTimeout w")
    case None
    with assms have "timers w = []" by simp
    with None show ?thesis
      by (simp add: componentWillUnmount_def cleanupServices_def addDebugLog_frame)
  next
    case (Some h)
    with assms have "\<forall>e \<in> set (timers w). fst e = h" by auto
    then have "filter (\<lambda>e. fst e \<noteq> h) (timers w) = []"
      by (simp add: filter_empty_conv)
    with Some show ?thesis
      by (simp add: componentWillUnmount_def cleanupServices_def addDebugLog_frame clearTimeout_def)
  qed
qed

lemma updateDemoData_armed:
  assumes "fst ` set (timers w) \<subseteq> set_option (autoSaveTimeout w)"
    and "autoSave (preferences (merge_updates env (now w) u (demoData (state w))))"
  shows "updateDemoData env u w =
           w\<lparr>state := (state w)\<lparr>demoData := merge_updates env (now w) u (demoData (state w))\<rparr>,
             autoSaveTimeout := Some (next_timer w),
             timers := [(next_timer w, now w + 1000)],
             next_timer := next_timer w + 1\<rparr>"
  using assms
  by (simp add: updateDemoData_def Let_def debouncedAutoSave_armed)

text \<open>
  C8. Arming the scheduler cancels the pending trigger, if any, and leaves exactly one
  trigger, due 1000 time units later; so of two mutations made \<open>d < 1000\<close> time units
  apart, with auto-save on, the first causes no Save before the second, and once time
  has passed 1000 units beyond the second, the callback has run exactly once, at that
  moment, and no trigger is left. Teardown removes the pending trigger and forgets its
  handle. The component is taken with no trigger pending other than the one its
  handle names, as is the case from its construction on.
\<close>

theorem debounce_last_write_wins:
  assumes "fst ` set (timers w) \<subseteq> set_option (autoSaveTimeout w)"
    and "d < 1000" and "now w + d + 1000 \<le> T"
    and "autoSave (preferences (merge_updates env (now w) u1 (demoData (state w))))"
    and "autoSave (preferences (merge_updates env (now w + d) u2
           (merge_updates env (now w) u1 (demoData (state w)))))"
  shows "timers (debouncedAutoSave w) = [(next_timer w, now w + 1000)]
    \<and> autoSaveTimeout (debouncedAutoSave w) = Some (next_timer w)
    \<and> advance_to env p (now w + d) (updateDemoData env u1 w)
        = (updateDemoData env u1 w)\<lparr>now := now w + d\<rparr>
    \<and> timers (updateDemoData env u2 (advance_to env p (now w + d) (updateDemoData env u1 w)))
        = [(next_timer w + 1, now w + d + 1000)]
    \<and> advance_to env p T
          (updateDemoData env u2 (advance_to env p (now w + d) (updateDemoData env u1 w)))
        = (autoSave_callback env p
             ((updateDemoData env u2 (advance_to env p (now w + d) (updateDemoData env u1 w)))
                \<lparr>timers := [], now := now w + d + 1000\<rparr>))\<lparr>now := T\<rparr>
    \<and> timers (advance_to env p T
          (updateDemoData env u2 (advance_to env p (now w + d) (updateDemoData env u1 w)))) = []
    \<and> timers (componentWillUnmount env w) = []
    \<and> autoSaveTimeout (componentWillUnmount env w) = None"
proof -
  define w1 where "w1 = updateDemoData env u1 w"
  define w2 where "w2 = advance_to env p (now w + d) w1"
  define w3 where "w3 = updateDemoData env u2 w2"
  have w1: "w1 = w\<lparr>state := (state w)\<lparr>demoData := merge_updates env (now w) u1 (demoData (state w))\<rparr>,
                    autoSaveTimeout := Some (next_timer w),
                    timers := [(next_timer w, now w + 1000)],
                    next_timer := next_timer w + 1\<rparr>"
    unfolding w1_def using assms(1,4) by (rule updateDemoData_armed)
  have "\<forall>e \<in> set (timers w1). now w + d < snd e"
    using assms(2) by (simp add: w1)
  then have "w2 = w1\<lparr>now := max (now w1) (now w + d)\<rparr>"
    unfolding w2_def by (rule advance_to_nothing_due)
  then have w2: "w2 = w1\<lparr>now := now w + d\<rparr>"
    by (simp add: w1)
  have inv2: "fst ` set (timers w2) \<subseteq> set_option (autoSaveTimeout w2)"
    by (simp add: w2 w1)
  have as2: "autoSave (preferences (merge_updates env (now w2) u2 (demoData (state w2))))"
    using assms(5) by (simp add: w2 w1)
  have "w3 = w2\<lparr>state := (state w2)\<lparr>demoData := merge_updates env (now w2) u2 (demoData (state w2))\<rparr>,
                  autoSaveTimeout := Some (next_timer w2),
                  timers := [(next_timer w2, now w2 + 1000)],
                  next_timer := next_timer w2 + 1\<rparr>"
    unfolding w3_def using inv2 as2 by (rule updateDemoData_armed)
  then have w3: "timers w3 = [(next_timer w + 1, now w + d + 1000)]" "now w3 = now w + d"
    by (simp_all add: w2 w1)
  have fire: "advance_to env p T w3 =
      (autoSave_callback env p (w3\<lparr>timers := [], now := now w + d + 1000\<rparr>))\<lparr>now := T\<rparr>"
    using w3(1) assms(3) by (rule advance_to_single_due) (simp add: w3)
  have left: "timers (advance_to env p T w3) = []"
    by (simp add: fire autoSave_callback_frame)
  have arm: "timers (debouncedAutoSave w) = [(next_timer w, now w + 1000)]"
    "autoSaveTimeout (debouncedAutoSave w) = Some (next_timer w)"
    by (simp_all add: debouncedAutoSave_armed [OF assms(1)])
  show ?thesis
    using arm w2 w3(1) fire left componentWillUnmount_timer [OF assms(1), of env]
    unfolding w3_def w2_def w1_def by simp
qed

theorem debounce_last_write_wins_witness:
  "debugLogs (state (advance_to example_env \<lparr>services = Some (mockServices None)\<rparr> 1500
      (updateDemoData example_env
         \<lparr>upd_userInput = Some ''ab'', upd_counter = None, upd_preferences = None\<rparr>
         (advance_to example_env \<lparr>services = Some (mockServices None)\<rparr> 500
            (updateDemoData example_env
               \<lparr>upd_userInput = Some ''a'', upd_counter = None, upd_preferences = None\<rparr>
               (initial_world example_env 0))))))
     = [''[1500] Auto-saving after user input...'',
        ''[1500] Starting state save operation...'',
        ''[1500] Saving state (161 bytes)...'',
        ''[1500] State saved successfully'']
   \<and> calls (advance_to example_env \<lparr>services = Some (mockServices None)\<rparr> 1500
      (updateDemoData example_env
         \<lparr>upd_userInput = Some ''ab'', upd_counter = None, upd_preferences = None\<rparr>
         (advance_to example_env \<lparr>services = Some (mockServices None)\<rparr> 500
            (updateDemoData example_env
               \<lparr>upd_userInput = Some ''a'', upd_counter = None, upd_preferences = None\<rparr>
               (initial_world example_env 0)))))
     = [SaveStateCall
          \<lparr>sts_demoData = \<lparr>userInput = ''ab'', counter = 0,
                            preferences = \<lparr>autoSave = True, showDebugInfo = True\<rparr>,
                            timestamp = ''Jan 1 2024 (+500ms)''\<rparr>,
           sts_saveCount = 1, sts_restoreCount = 0\<rparr>]
   \<and> timers (advance_to example_env \<lparr>services = Some (mockServices None)\<rparr> 1500
      (updateDemoData example_env
         \<lparr>upd_userInput = Some ''ab'', upd_counter = None, upd_preferences = None\<rparr>
         (advance_to example_env \<lparr>services = Some (mockServices None)\<rparr> 500
            (updateDemoData example_env
               \<lparr>upd_userInput = Some ''a'', upd_counter = None, upd_preferences = None\<rparr>
               (initial_world example_env 0))))) = []"
proof -
  define u1 where "u1 = \<lparr>upd_userInput = Some ''a'', upd_counter = None, upd_preferences = None\<rparr>"
  define u2 where "u2 = \<lparr>upd_userInput = Some ''ab'', upd_counter = None, upd_preferences = None\<rparr>"
  define p where "p = \<lparr>services = Some (mockServices None)\<rparr>"
  define w where "w = initial_world example_env 0"
  have w: "timers w = []" "autoSaveTimeout w = None" "now w = 0" "next_timer w = 1"
    "demoData (state w) = default_demoData example_env 0"
    by (simp_all add: w_def initial_world_def initial_state_def)
  have h1: "fst ` set (timers w) \<subseteq> set_option (autoSaveTimeout w)"
    by (simp add: w)
  have h2: "(500::nat) < 1000" and h3: "now w + 500 + 1000 \<le> 1500"
    by (simp_all add: w)
  have h4: "autoSave (preferences (merge_updates example_env (now w) u1 (demoData (state w))))"
    by (simp add: w merge_updates_def u1_def default_demoData_def)
  have h5: "autoSave (preferences (merge_updates example_env (now w + 500) u2
           (merge_updates example_env (now w) u1 (demoData (state w)))))"
    by (simp add: w merge_updates_def u1_def u2_def default_demoData_def)
  have nw: "now w + 500 = 500"
    by (simp add: w)
  note run = debounce_last_write_wins [OF h1 h2 h3 h4 h5, of p, unfolded nw]
  define w3 where "w3 = updateDemoData example_env u2
      (advance_to example_env p 500 (updateDemoData example_env u1 w))"
  have nums: "string_of_nat 500 = ''500''" "string_of_nat 1500 = ''1500''"
    "string_of_nat 161 = ''161''" "string_of_nat (Suc 0) = ''1''" "string_of_nat 0 = ''0''"
    by (simp_all add: string_of_nat_eval)
  have w3: "w3 = w\<lparr>state := (state w)\<lparr>demoData :=
                      \<lparr>userInput = ''ab'', counter = 0,
                       preferences = \<lparr>autoSave = True, showDebugInfo = True\<rparr>,
                       timestamp = ''Jan 1 2024 (+500ms)''\<rparr>\<rparr>,
                    autoSaveTimeout := Some 2, timers := [(2, 1500)], next_timer := 3,
                    now := 500\<rparr>"
    unfolding w3_def
    by (simp add: updateDemoData_def debouncedAutoSave_def setTimeout_def clearTimeout_def
        advance_to_def Let_def merge_updates_def u1_def u2_def w default_demoData_def
        example_env_def nums)
  have fin: "advance_to example_env p 1500 w3 =
      (autoSave_callback example_env p (w3\<lparr>timers := [], now := 500 + 1000\<rparr>))\<lparr>now := 1500\<rparr>"
    unfolding w3_def
    by (rule run [THEN conjunct2, THEN conjunct2, THEN conjunct2, THEN conjunct2, THEN conjunct1])
  have left: "timers (advance_to example_env p 1500 w3) = []"
    unfolding w3_def
    by (rule run [THEN conjunct2, THEN conjunct2, THEN conjunct2, THEN conjunct2, THEN conjunct2,
          THEN conjunct1])
  have size: "length (json_StateToSave
          \<lparr>sts_demoData = \<lparr>userInput = ''ab'', counter = 0,
                            preferences = \<lparr>autoSave = True, showDebugInfo = True\<rparr>,
                            timestamp = ''Jan 1 2024 (+500ms)''\<rparr>,
           sts_saveCount = 1, sts_restoreCount = 0\<rparr>) = 161"
    by (simp add: json_StateToSave_def json_DemoData_def json_string_def json_int_def
        json_bool_def json_escape_def nums)
  have valid: "validateDemoData example_env \<lparr>userInput = ''ab'', counter = 0,
                            preferences = \<lparr>autoSave = True, showDebugInfo = True\<rparr>,
                            timestamp = ''Jan 1 2024 (+500ms)''\<rparr>
      = \<lparr>isValid = True, errors = []\<rparr>"
    by (simp add: validateDemoData_def Let_def example_env_def example_Date_parse_isNaN_def)
  have env: "JSON_stringify example_env = json_StateToSave"
    "toLocaleTimeString example_env = string_of_nat"
    by (simp_all add: example_env_def)
  have cb: "debugLogs (state (advance_to example_env p 1500 w3))
     = [''[1500] Auto-saving after user input...'',
        ''[1500] Starting state save operation...'',
        ''[1500] Saving state (161 bytes)...'',
        ''[1500] State saved successfully'']"
    "calls (advance_to example_env p 1500 w3)
     = [SaveStateCall
          \<lparr>sts_demoData = \<lparr>userInput = ''ab'', counter = 0,
                            preferences = \<lparr>autoSave = True, showDebugInfo = True\<rparr>,
                            timestamp = ''Jan 1 2024 (+500ms)''\<rparr>,
           sts_saveCount = 1, sts_restoreCount = 0\<rparr>]"
    unfolding fin
    by (simp_all add: w3 w_def initial_world_def initial_state_def autoSave_callback_def
        saveState_def saveState_settled_def addDebugLog_def Let_def slice_last_def
        services_pluginState_def mockServices_def p_def valid size env nums js_add_0_1)
  show ?thesis
    using cb left unfolding w3_def u1_def u2_def p_def w_def
    by simp
qed

end
